theory Spec2Isabelle
  imports Complex_Main "HOL-Library.AList"
begin

section \<open>Sample tables\<close>

text \<open>
  The program of \<^verbatim>\<open>catalog_generators/lvc_gwtc1_parser.py\<close> works on pandas
  tables of posterior samples. A table is modelled by its number of rows and the
  association list of its columns, in column order; a column is the list of its
  values. Sample values are IEEE doubles in the program. The model leaves the values
  and their arithmetic abstract: a value has a type \<open>'v\<close> with \<open>0\<close>, \<open>1\<close>, \<open>+\<close> and \<open>/\<close>,
  and no law about these operations is assumed, so what is proved holds for the
  doubles with their rounding, underflow, \<^verbatim>\<open>inf\<close> and \<^verbatim>\<open>nan\<close> (pandas does not raise
  on a division by zero). Concrete inputs are tables of real numbers. Column names
  of one table are pairwise different, as in a table built from a dictionary.
\<close>

datatype py_error = KeyError string | ValueError | IndexError | CosmologyError

type_synonym 'v column = "'v list"

record 'v dataframe =
  nrows :: nat
  cols :: "(string \<times> 'v column) list"

definition columns :: "'v dataframe \<Rightarrow> string list" where
  "columns df = map fst (cols df)"

text \<open>\<^verbatim>\<open>df[c]\<close>: the column, or \<^verbatim>\<open>KeyError(c)\<close> when the table has none of that name.\<close>

definition getitem :: "'v dataframe \<Rightarrow> string \<Rightarrow> py_error + 'v column" where
  "getitem df c = (case map_of (cols df) c of None \<Rightarrow> Inl (KeyError c) | Some v \<Rightarrow> Inr v)"

text \<open>\<^verbatim>\<open>df[c] = v\<close>: an existing column is replaced where it stands, a new one is
  appended.\<close>

definition setitem :: "'v dataframe \<Rightarrow> string \<Rightarrow> 'v column \<Rightarrow> 'v dataframe" where
  "setitem df c v = df\<lparr>cols := AList.update c v (cols df)\<rparr>"

definition wf_df :: "'v dataframe \<Rightarrow> bool" where
  "wf_df df \<longleftrightarrow> distinct (columns df) \<and> list_all (\<lambda>(c, v). length v = nrows df) (cols df)"

subsection \<open>Right-hand sides and assignments\<close>

text \<open>
  A right-hand side reads the table and yields a column or the error of its first
  failing read; operands are evaluated left to right. An assignment statement
  evaluates its right-hand side and then stores the column.
\<close>

type_synonym 'v expr = "'v dataframe \<Rightarrow> py_error + 'v column"
type_synonym 'v step = "'v dataframe \<Rightarrow> py_error + 'v dataframe"

definition col :: "string \<Rightarrow> 'v expr" where
  "col c df = getitem df c"

definition const :: "'v \<Rightarrow> 'v expr" where
  "const x df = Inr (replicate (nrows df) x)"

definition apply_fn :: "('v column \<Rightarrow> 'v column) \<Rightarrow> 'v expr \<Rightarrow> 'v expr" where
  "apply_fn f a df = (case a df of Inl e \<Rightarrow> Inl e | Inr v \<Rightarrow> Inr (f v))"

definition one_plus :: "('v::{one,plus}) expr \<Rightarrow> 'v expr" where
  "one_plus a = apply_fn (map (\<lambda>x. 1 + x)) a"

definition div_expr :: "('v::inverse) expr \<Rightarrow> 'v expr \<Rightarrow> 'v expr" where
  "div_expr a b df =
     (case a df of Inl e \<Rightarrow> Inl e
      | Inr v \<Rightarrow> (case b df of Inl e \<Rightarrow> Inl e
                  | Inr w \<Rightarrow> Inr (map2 (\<lambda>x y. x / y) v w)))"

definition assign :: "string \<Rightarrow> 'v expr \<Rightarrow> 'v step" where
  "assign c rhs df = (case rhs df of Inl e \<Rightarrow> Inl e | Inr v \<Rightarrow> Inr (setitem df c v))"

fun run :: "'v step list \<Rightarrow> 'v dataframe \<Rightarrow> py_error + 'v dataframe" where
  "run [] df = Inr df"
| "run (st # sts) df = (case st df of Inl e \<Rightarrow> Inl e | Inr df' \<Rightarrow> run sts df')"

section \<open>The GWTC-1 event parser\<close>

text \<open>The keys of \<^verbatim>\<open>SEARCH_PARAMS\<close>, in the order of the dictionary.\<close>

definition SEARCH_PARAMS :: "string list" where
  "SEARCH_PARAMS =
     [''luminosity_distance_Mpc'', ''m1_detector_frame_Msun'', ''m2_detector_frame_Msun'',
      ''right_ascension'', ''declination'', ''costheta_jn'', ''spin1'', ''costilt1'',
      ''spin2'', ''costilt2'']"

definition get_search_parameters :: "string list" where
  "get_search_parameters = SEARCH_PARAMS"

text \<open>
  Modelled from the spec: \<^verbatim>\<open>utils.get_redshift_from_dl\<close> (module \<^verbatim>\<open>utils\<close> is not
  part of the module verified here). The redshift is the cosmology adapter applied
  pointwise, one value per sample draw; the adapter itself is the parameter \<open>z\<close>.
\<close>

definition get_redshift_from_dl :: "('v \<Rightarrow> 'v) \<Rightarrow> 'v column \<Rightarrow> 'v column" where
  "get_redshift_from_dl z dl = map z dl"

text \<open>
  Modelled from the spec: the decorator \<^verbatim>\<open>utils.sort_parameters\<close> (not part of the module verified here) reorders and validates the columns of the table the decorated
  function returns. The reordering is the parameter \<open>reorder\<close>.
\<close>

definition sort_parameters :: "'v step \<Rightarrow> 'v step \<Rightarrow> 'v step" where
  "sort_parameters reorder func samples =
     (case func samples of Inl e \<Rightarrow> Inl e | Inr out \<Rightarrow> reorder out)"

text \<open>The body of the loop \<^verbatim>\<open>for ii in [1, 2]\<close>; \<open>ii\<close> is the text the f-strings
  print for the loop variable.\<close>

definition component_steps :: "string \<Rightarrow> ('v::{one,plus,inverse}) step list" where
  "component_steps ii =
     [assign (''mass_'' @ ii @ ''_source'')
        (div_expr (col (''m'' @ ii @ ''_detector_frame_Msun'')) (one_plus (col ''redshift''))),
      assign (''a_'' @ ii) (col (''spin'' @ ii)),
      assign (''cos_tilt_'' @ ii) (col (''costilt'' @ ii)),
      assign (''spin_'' @ ii @ ''z'') (col (''costilt'' @ ii))]"

text \<open>The statements of \<^verbatim>\<open>standardise_samples\<close> before the call of
  \<^verbatim>\<open>utils.add_aligned_component_spins\<close>.\<close>

definition standardise_head :: "(('v::{one,plus,inverse}) \<Rightarrow> 'v) \<Rightarrow> 'v step list" where
  "standardise_head z =
     [assign ''luminosity_distance'' (col ''luminosity_distance_Mpc''),
      assign ''redshift'' (apply_fn (get_redshift_from_dl z) (col ''luminosity_distance''))]
     @ concat (map component_steps [''1'', ''2''])
     @ [assign ''mass_ratio'' (div_expr (col ''mass_2_source'') (col ''mass_1_source'')),
        assign ''ra'' (col ''right_ascension''),
        assign ''dec'' (col ''declination'')]"

text \<open>The statements after that call.\<close>

definition orientation_defaults :: "('v::zero) step list" where
  "orientation_defaults =
     [assign ''incl'' (const 0), assign ''phi_12'' (const 0),
      assign ''phi_jl'' (const 0), assign ''geocent_time'' (const 0)]"

text \<open>
  The undecorated function. \<^verbatim>\<open>utils.add_aligned_component_spins\<close> is not part of
  the module verified here; it is the parameter \<open>add_spins\<close>, a function from a table to
  a table that may fail.
\<close>

definition standardise_body ::
  "(('v::{zero,one,plus,inverse}) \<Rightarrow> 'v) \<Rightarrow> 'v step \<Rightarrow> 'v step" where
  "standardise_body z add_spins samples =
     (case run (standardise_head z) samples of Inl e \<Rightarrow> Inl e
      | Inr samples1 \<Rightarrow>
          (case add_spins samples1 of Inl e \<Rightarrow> Inl e
           | Inr samples2 \<Rightarrow> run orientation_defaults samples2))"

definition standardise_samples ::
  "(('v::{zero,one,plus,inverse}) \<Rightarrow> 'v) \<Rightarrow> 'v step \<Rightarrow> 'v step \<Rightarrow> 'v step" where
  "standardise_samples z add_spins reorder =
     sort_parameters reorder (standardise_body z add_spins)"


text \<open>A collaborator keeps the named columns when the table it returns has them as
  they were in the table it received.\<close>

definition keeps :: "string list \<Rightarrow> 'v step \<Rightarrow> bool" where
  "keeps names f \<longleftrightarrow>
     (\<forall>df out. f df = Inr out \<longrightarrow> (\<forall>c \<in> set names. getitem out c = getitem df c))"

subsection \<open>The GWOSC-compatible table\<close>



section \<open>The event summariser\<close>

text \<open>
  The summary under construction maps keys to values. \<^verbatim>\<open>utils.summarise_samples\<close>
  and bilby's \<^verbatim>\<open>luminosity_distance_to_redshift\<close> are not part of the module
  verified here: the first is the parameter \<open>summarise_samples\<close>, a function from a
  column to a triple, the second the parameter \<open>lz\<close>, a function that returns a
  redshift or raises (bilby raises \<^verbatim>\<open>CosmologyError\<close> where its inversion fails, as
  at distance 0).
\<close>

type_synonym 'v summary = "string \<rightharpoonup> 'v"

text \<open>\<^verbatim>\<open>summary[k]\<close>: the entry, or \<^verbatim>\<open>KeyError(k)\<close>.\<close>

definition lookup :: "'v summary \<Rightarrow> string \<Rightarrow> py_error + 'v" where
  "lookup summary k = (case summary k of None \<Rightarrow> Inl (KeyError k) | Some v \<Rightarrow> Inr v)"

text \<open>
  The first loop of \<^verbatim>\<open>summarise_event_df\<close>. The tuple assignment stores the
  components of the triple from left to right: the first under
  \<^verbatim>\<open>param + "_lower"\<close>, the second under \<^verbatim>\<open>param + "_upper"\<close>, the third under
  \<^verbatim>\<open>param\<close>.
\<close>

fun summarise_columns ::
  "('v column \<Rightarrow> 'v \<times> 'v \<times> 'v) \<Rightarrow> 'v dataframe \<Rightarrow> string list \<Rightarrow> 'v summary
     \<Rightarrow> py_error + 'v summary"
where
  "summarise_columns summarise_samples event_df [] summary = Inr summary"
| "summarise_columns summarise_samples event_df (param # params) summary =
     (case getitem event_df param of Inl e \<Rightarrow> Inl e
      | Inr samples \<Rightarrow>
          (case summarise_samples samples of (t1, t2, t3) \<Rightarrow>
             summarise_columns summarise_samples event_df params
               (summary(param @ ''_lower'' \<mapsto> t1, param @ ''_upper'' \<mapsto> t2, param \<mapsto> t3))))"

definition primary_summary ::
  "('v column \<Rightarrow> 'v \<times> 'v \<times> 'v) \<Rightarrow> 'v dataframe \<Rightarrow> py_error + 'v summary" where
  "primary_summary summarise_samples event_df =
     summarise_columns summarise_samples event_df (columns event_df) Map.empty"

text \<open>The second loop: \<^verbatim>\<open>for param_type in ["_lower", "_upper", ""]\<close> and, inside,
  \<^verbatim>\<open>for key in ['mass_1', 'mass_2', 'chirp_mass', 'total_mass']\<close>.\<close>

definition param_types :: "string list" where
  "param_types = [''_lower'', ''_upper'', '''']"

definition mass_keys :: "string list" where
  "mass_keys = [''mass_1'', ''mass_2'', ''chirp_mass'', ''total_mass'']"

fun source_masses ::
  "string \<Rightarrow> string list \<Rightarrow> ('v::{one,plus,inverse}) summary \<Rightarrow> py_error + 'v summary" where
  "source_masses param_type [] summary = Inr summary"
| "source_masses param_type (key # keys) summary =
     (case lookup summary (key @ param_type) of Inl e \<Rightarrow> Inl e
      | Inr m \<Rightarrow>
          (case lookup summary (''redshift'' @ param_type) of Inl e \<Rightarrow> Inl e
           | Inr zz \<Rightarrow>
               source_masses param_type keys
                 (summary(key @ ''_source'' @ param_type \<mapsto> m / (1 + zz)))))"

definition secondary_step ::
  "(('v::{one,plus,inverse}) \<Rightarrow> py_error + 'v) \<Rightarrow> string \<Rightarrow> 'v summary \<Rightarrow> py_error + 'v summary"
where
  "secondary_step lz param_type summary =
     (case lookup summary (''luminosity_distance'' @ param_type) of Inl e \<Rightarrow> Inl e
      | Inr d \<Rightarrow>
          (case lz d of Inl e \<Rightarrow> Inl e
           | Inr zz \<Rightarrow>
               source_masses param_type mass_keys (summary(''redshift'' @ param_type \<mapsto> zz))))"

fun derive_secondary ::
  "(('v::{one,plus,inverse}) \<Rightarrow> py_error + 'v) \<Rightarrow> string list \<Rightarrow> 'v summary
     \<Rightarrow> py_error + 'v summary" where
  "derive_secondary lz [] summary = Inr summary"
| "derive_secondary lz (param_type # rest) summary =
     (case secondary_step lz param_type summary of Inl e \<Rightarrow> Inl e
      | Inr summary' \<Rightarrow> derive_secondary lz rest summary')"

text \<open>The summary as it stands before the filter to the published keys.\<close>

definition computed_summary ::
  "(('v::{one,plus,inverse}) column \<Rightarrow> 'v \<times> 'v \<times> 'v) \<Rightarrow> ('v \<Rightarrow> py_error + 'v) \<Rightarrow> 'v dataframe
     \<Rightarrow> py_error + 'v summary" where
  "computed_summary summarise_samples lz event_df =
     (case primary_summary summarise_samples event_df of Inl e \<Rightarrow> Inl e
      | Inr summary \<Rightarrow> derive_secondary lz param_types summary)"

text \<open>
  The values of a returned summary record: numbers, the integer version, the event
  name and \<^verbatim>\<open>None\<close>. \<^verbatim>\<open>GWOSC_KEYS\<close> of module \<^verbatim>\<open>event_keys\<close> is not part of the module verified here and is a parameter.
\<close>

datatype 'v pyval = PyFloat 'v | PyInt int | PyStr string | PyNone

definition filter_published :: "string list \<Rightarrow> 'v summary \<Rightarrow> (string \<rightharpoonup> 'v pyval)" where
  "filter_published keys summary =
     map_of (map (\<lambda>k. (k, case summary k of None \<Rightarrow> PyNone | Some v \<Rightarrow> PyFloat v)) keys)"

definition summarise_event_df ::
  "(('v::{one,plus,inverse}) column \<Rightarrow> 'v \<times> 'v \<times> 'v) \<Rightarrow> ('v \<Rightarrow> py_error + 'v) \<Rightarrow> string list
     \<Rightarrow> 'v dataframe \<Rightarrow> py_error + (string \<rightharpoonup> 'v pyval)" where
  "summarise_event_df summarise_samples lz GWOSC_KEYS event_df =
     (case computed_summary summarise_samples lz event_df of Inl e \<Rightarrow> Inl e
      | Inr summary \<Rightarrow> Inr ((filter_published GWOSC_KEYS summary)(''version'' \<mapsto> PyInt 1)))"

text \<open>\<^verbatim>\<open>summarise_all_events\<close>: the dictionaries of events are association lists in
  insertion order.\<close>

fun summarise_events_loop ::
  "(('v::{one,plus,inverse}) column \<Rightarrow> 'v \<times> 'v \<times> 'v) \<Rightarrow> ('v \<Rightarrow> py_error + 'v) \<Rightarrow> string list
     \<Rightarrow> (string \<times> 'v dataframe) list \<Rightarrow> (string \<times> (string \<rightharpoonup> 'v pyval)) list
     \<Rightarrow> py_error + (string \<times> (string \<rightharpoonup> 'v pyval)) list"
where
  "summarise_events_loop summarise_samples lz GWOSC_KEYS [] summary_dict = Inr summary_dict"
| "summarise_events_loop summarise_samples lz GWOSC_KEYS ((event_name, event_df) # rest) summary_dict =
     (case summarise_event_df summarise_samples lz GWOSC_KEYS event_df of Inl e \<Rightarrow> Inl e
      | Inr event_summary_dict \<Rightarrow>
          summarise_events_loop summarise_samples lz GWOSC_KEYS rest
            (AList.update event_name (event_summary_dict(''commonName'' \<mapsto> PyStr event_name))
               summary_dict))"

definition summarise_all_events ::
  "(('v::{one,plus,inverse}) column \<Rightarrow> 'v \<times> 'v \<times> 'v) \<Rightarrow> ('v \<Rightarrow> py_error + 'v) \<Rightarrow> string list
     \<Rightarrow> (string \<times> 'v dataframe) list \<Rightarrow> py_error + (string \<times> (string \<rightharpoonup> 'v pyval)) list" where
  "summarise_all_events summarise_samples lz GWOSC_KEYS events_samples_dict =
     summarise_events_loop summarise_samples lz GWOSC_KEYS events_samples_dict []"

section \<open>Loading the posterior files\<close>

text \<open>
  Python's \<^verbatim>\<open>str.startswith\<close> and \<^verbatim>\<open>str.split\<close> with a separator: the text is
  scanned from the left, the pieces between the occurrences of the separator are
  collected, and an empty separator raises \<^verbatim>\<open>ValueError\<close>. \<open>cur\<close> is the piece
  read so far.
\<close>

definition startswith :: "string \<Rightarrow> string \<Rightarrow> bool" where
  "startswith s sep \<longleftrightarrow> take (length sep) s = sep"

fun split_py :: "string \<Rightarrow> string \<Rightarrow> string \<Rightarrow> string list" where
  "split_py sep cur [] = [cur]"
| "split_py sep cur (c # cs) =
     (if sep \<noteq> [] \<and> startswith (c # cs) sep
      then cur # split_py sep [] (drop (length sep) (c # cs))
      else split_py sep (cur @ [c]) cs)"

definition str_split :: "string \<Rightarrow> string \<Rightarrow> py_error + string list" where
  "str_split s sep = (if sep = [] then Inl ValueError else Inr (split_py sep [] s))"

text \<open>Indexing a list with 0.\<close>

definition index0 :: "'a list \<Rightarrow> py_error + 'a" where
  "index0 xs = (case xs of [] \<Rightarrow> Inl IndexError | x # _ \<Rightarrow> Inr x)"

text \<open>\<^verbatim>\<open>os.path.basename\<close> on a POSIX path: what follows the last slash.\<close>

definition basename :: "string \<Rightarrow> string" where
  "basename p = rev (takeWhile (\<lambda>c. c \<noteq> CHR ''/'') (rev p))"

text \<open>\<^verbatim>\<open>s.split(sep)[0]\<close>, and the two lines of \<^verbatim>\<open>load_event_samples_to_dataframes\<close>
  that derive the event name from the file.\<close>

definition first_piece :: "string \<Rightarrow> string \<Rightarrow> py_error + string" where
  "first_piece s sep = (case str_split s sep of Inl e \<Rightarrow> Inl e | Inr pieces \<Rightarrow> index0 pieces)"

definition event_name_of_file :: "string \<Rightarrow> py_error + string" where
  "event_name_of_file file =
     (case first_piece (basename file) ''.h'' of Inl e \<Rightarrow> Inl e
      | Inr event_name \<Rightarrow> first_piece event_name ''_'')"

text \<open>
  The rest of the loop. Opening the file and its group \<^verbatim>\<open>Overall_posterior\<close> is
  the parameter \<open>read_posterior\<close>, which yields the datasets of the group by name;
  the dictionary comprehension reads the keys of \<^verbatim>\<open>SEARCH_PARAMS\<close> from it, and
  \<^verbatim>\<open>pd.DataFrame\<close> refuses columns of different lengths. The list of files is what
  \<^verbatim>\<open>glob\<close> found.
\<close>

fun read_columns ::
  "(string \<rightharpoonup> 'v column) \<Rightarrow> string list \<Rightarrow> py_error + (string \<times> 'v column) list" where
  "read_columns event_hdf [] = Inr []"
| "read_columns event_hdf (k # ks) =
     (case event_hdf k of None \<Rightarrow> Inl (KeyError k)
      | Some v \<Rightarrow> (case read_columns event_hdf ks of Inl e \<Rightarrow> Inl e | Inr d \<Rightarrow> Inr ((k, v) # d)))"

definition DataFrame :: "(string \<times> 'v column) list \<Rightarrow> py_error + 'v dataframe" where
  "DataFrame d =
     (case d of [] \<Rightarrow> Inr \<lparr>nrows = 0, cols = []\<rparr>
      | (k, v) # rest \<Rightarrow>
          if list_all (\<lambda>(k', v'). length v' = length v) rest
          then Inr \<lparr>nrows = length v, cols = d\<rparr> else Inl ValueError)"

fun load_loop ::
  "(string \<Rightarrow> py_error + (string \<rightharpoonup> 'v column)) \<Rightarrow> string list \<Rightarrow> (string \<times> 'v dataframe) list
     \<Rightarrow> py_error + (string \<times> 'v dataframe) list" where
  "load_loop read_posterior [] events_samples_dict = Inr events_samples_dict"
| "load_loop read_posterior (file # files) events_samples_dict =
     (case event_name_of_file file of Inl e \<Rightarrow> Inl e
      | Inr event_name \<Rightarrow>
     (case read_posterior file of Inl e \<Rightarrow> Inl e
      | Inr event_hdf \<Rightarrow>
     (case read_columns event_hdf SEARCH_PARAMS of Inl e \<Rightarrow> Inl e
      | Inr event_dict \<Rightarrow>
     (case DataFrame event_dict of Inl e \<Rightarrow> Inl e
      | Inr event_df \<Rightarrow>
          load_loop read_posterior files
            (AList.update event_name event_df events_samples_dict)))))"

definition load_event_samples_to_dataframes ::
  "(string \<Rightarrow> py_error + (string \<rightharpoonup> 'v column)) \<Rightarrow> string list
     \<Rightarrow> py_error + (string \<times> 'v dataframe) list"
where
  "load_event_samples_to_dataframes read_posterior files = load_loop read_posterior files []"

text \<open>
  The rule of the specification for the event name: the base name of the file,
  truncated at the first occurrence of \<^verbatim>\<open>.h\<close>, and of that the segment before the
  first underscore.
\<close>

fun truncate_at :: "string \<Rightarrow> string \<Rightarrow> string" where
  "truncate_at sep [] = []"
| "truncate_at sep (c # cs) = (if startswith (c # cs) sep then [] else c # truncate_at sep cs)"

definition spec_event_name :: "string \<Rightarrow> string" where
  "spec_event_name file =
     takeWhile (\<lambda>c. c \<noteq> CHR ''_'') (truncate_at ''.h'' (basename file))"

section \<open>Tables as objects\<close>

text \<open>
  Where a claim is about which table object a function changes, tables live in a
  heap, a list of tables, and a reference is an index into it. A statement list run
  in place replaces the table at the reference after each statement; when a
  statement fails the heap keeps the columns assigned before. The collaborators
  outside the module verified here either change the table they receive and return its
  reference, or leave it and return the reference of a new table.
\<close>

type_synonym ref = nat
type_synonym 'v heap = "'v dataframe list"

fun run_in_place :: "'v step list \<Rightarrow> 'v heap \<Rightarrow> ref \<Rightarrow> 'v heap \<times> py_error option" where
  "run_in_place [] h r = (h, None)"
| "run_in_place (st # sts) h r =
     (case st (h ! r) of Inl e \<Rightarrow> (h, Some e)
      | Inr df \<Rightarrow> run_in_place sts (h[r := df]) r)"

datatype aliasing = InPlace | NewObject

definition call_helper ::
  "aliasing \<Rightarrow> 'v step \<Rightarrow> 'v heap \<Rightarrow> ref \<Rightarrow> 'v heap \<times> (py_error + ref)" where
  "call_helper mode f h r =
     (case f (h ! r) of Inl e \<Rightarrow> (h, Inl e)
      | Inr df \<Rightarrow>
          (case mode of InPlace \<Rightarrow> (h[r := df], Inr r)
           | NewObject \<Rightarrow> (h @ [df], Inr (length h))))"

definition standardise_samples_ref ::
  "(('v::{zero,one,plus,inverse}) \<Rightarrow> 'v) \<Rightarrow> aliasing \<Rightarrow> 'v step \<Rightarrow> aliasing \<Rightarrow> 'v step \<Rightarrow> 'v heap \<Rightarrow> ref
     \<Rightarrow> 'v heap \<times> (py_error + ref)"
where
  "standardise_samples_ref z spins_mode add_spins sort_mode reorder h samples =
     (case run_in_place (standardise_head z) h samples of
        (h1, Some e) \<Rightarrow> (h1, Inl e)
      | (h1, None) \<Rightarrow>
          (case call_helper spins_mode add_spins h1 samples of
             (h2, Inl e) \<Rightarrow> (h2, Inl e)
           | (h2, Inr samples2) \<Rightarrow>
               (case run_in_place orientation_defaults h2 samples2 of
                  (h3, Some e) \<Rightarrow> (h3, Inl e)
                | (h3, None) \<Rightarrow> call_helper sort_mode reorder h3 samples2)))"



section \<open>Tables and keys used in the statements\<close>

text \<open>The source-frame mass column computed from a detector-frame mass column and
  the distance column.\<close>

definition source_mass :: "(('v::{one,plus,inverse}) \<Rightarrow> 'v) \<Rightarrow> 'v column \<Rightarrow> 'v column \<Rightarrow> 'v column" where
  "source_mass z m dl = map2 (\<lambda>x y. x / y) m (map (\<lambda>x. 1 + x) (map z dl))"

text \<open>The table after the statements of \<open>standardise_head\<close>, given the nine source
  columns they read.\<close>

definition head_table ::
  "(('v::{one,plus,inverse}) \<Rightarrow> 'v) \<Rightarrow> 'v dataframe \<Rightarrow> 'v column \<Rightarrow> 'v column \<Rightarrow> 'v column \<Rightarrow> 'v column
     \<Rightarrow> 'v column \<Rightarrow> 'v column \<Rightarrow> 'v column \<Rightarrow> 'v column \<Rightarrow> 'v column \<Rightarrow> 'v dataframe" where
  "head_table z samples dl m1 s1 c1 m2 s2 c2 ra dec =
     setitem (setitem (setitem (setitem (setitem (setitem (setitem (setitem
     (setitem (setitem (setitem (setitem (setitem samples
       ''luminosity_distance'' dl) ''redshift'' (map z dl))
       ''mass_1_source'' (source_mass z m1 dl)) ''a_1'' s1) ''cos_tilt_1'' c1) ''spin_1z'' c1)
       ''mass_2_source'' (source_mass z m2 dl)) ''a_2'' s2) ''cos_tilt_2'' c2) ''spin_2z'' c2)
       ''mass_ratio'' (map2 (\<lambda>x y. x / y) (source_mass z m2 dl) (source_mass z m1 dl)))
       ''ra'' ra) ''dec'' dec"

text \<open>The table after the statements of \<open>orientation_defaults\<close>.\<close>

definition defaults_table :: "('v::zero) dataframe \<Rightarrow> 'v dataframe" where
  "defaults_table df =
     setitem (setitem (setitem (setitem df ''incl'' (replicate (nrows df) 0))
       ''phi_12'' (replicate (nrows df) 0)) ''phi_jl'' (replicate (nrows df) 0))
       ''geocent_time'' (replicate (nrows df) 0)"

text \<open>The keys one column writes in the first loop of the summariser, the keys the
  second loop reads, and the summary after one round of the second loop, given the
  redshift and the four summarised masses of the round.\<close>

definition written_keys :: "string \<Rightarrow> string list" where
  "written_keys param = [param @ ''_lower'', param @ ''_upper'', param]"

definition required_keys :: "string list" where
  "required_keys =
     concat (map (\<lambda>pt. map (\<lambda>k. k @ pt) (''luminosity_distance'' # mass_keys)) param_types)"

definition step_result ::
  "string \<Rightarrow> ('v::{one,plus,inverse}) summary \<Rightarrow> 'v \<Rightarrow> 'v \<Rightarrow> 'v \<Rightarrow> 'v \<Rightarrow> 'v \<Rightarrow> 'v summary" where
  "step_result pt s zz m1 m2 mc mt =
     s(''redshift'' @ pt \<mapsto> zz,
       ''mass_1_source'' @ pt \<mapsto> m1 / (1 + zz),
       ''mass_2_source'' @ pt \<mapsto> m2 / (1 + zz),
       ''chirp_mass_source'' @ pt \<mapsto> mc / (1 + zz),
       ''total_mass_source'' @ pt \<mapsto> mt / (1 + zz))"

text \<open>The three entries of a returned record that belong to one parameter: under the
  suffix \<^verbatim>\<open>_lower\<close>, under the plain name, under the suffix \<^verbatim>\<open>_upper\<close>.\<close>

definition published_triple ::
  "string \<Rightarrow> (string \<rightharpoonup> 'v pyval) \<Rightarrow> 'v pyval option \<times> 'v pyval option \<times> 'v pyval option" where
  "published_triple param entry =
     (entry (param @ ''_lower''), entry param, entry (param @ ''_upper''))"

subsection \<open>Concrete inputs\<close>

text \<open>A raw table as \<^verbatim>\<open>load_event_samples\<close> builds it: the ten columns of
  \<^verbatim>\<open>SEARCH_PARAMS\<close>, here with one row; the same table without \<^verbatim>\<open>spin2\<close>;
  tables with the five columns the summariser needs, of one row and of three rows;
  a table at distance 0 without the columns \<^verbatim>\<open>chirp_mass\<close> and \<^verbatim>\<open>total_mass\<close>.\<close>

definition gwtc1_example :: "real dataframe" where
  "gwtc1_example = \<lparr>nrows = 1, cols =
     [(''luminosity_distance_Mpc'', [100]), (''m1_detector_frame_Msun'', [30]),
      (''m2_detector_frame_Msun'', [20]), (''right_ascension'', [1]), (''declination'', [0]),
      (''costheta_jn'', [1]), (''spin1'', [1/2]), (''costilt1'', [1]), (''spin2'', [1/4]),
      (''costilt2'', [-1])]\<rparr>"


definition summary_example :: "real dataframe" where
  "summary_example = \<lparr>nrows = 1, cols =
     [(''luminosity_distance'', [400]), (''mass_1'', [33]), (''mass_2'', [22]),
      (''chirp_mass'', [23]), (''total_mass'', [55])]\<rparr>"

definition three_row_example :: "real dataframe" where
  "three_row_example = \<lparr>nrows = 3, cols =
     [(''luminosity_distance'', [400, 440, 480]), (''mass_1'', [30, 32, 34]),
      (''mass_2'', [20, 21, 22]), (''chirp_mass'', [21, 22, 23]),
      (''total_mass'', [50, 53, 56])]\<rparr>"


text \<open>Cosmology adapters and a summariser for the concrete inputs. The summariser
  returns its triple in the order the spec gives for \<^verbatim>\<open>utils.summarise_samples\<close>,
  lower, median, upper; \<open>raising_redshift\<close> raises
  where the distance is not positive, as bilby's function does at distance 0.\<close>

definition example_redshift :: "real \<Rightarrow> real" where
  "example_redshift d = d / 4000"

definition example_lz :: "real \<Rightarrow> py_error + real" where
  "example_lz d = Inr (d / 4000)"


definition three_point_summary :: "real column \<Rightarrow> real \<times> real \<times> real" where
  "three_point_summary xs = (Min (set xs), sort xs ! (length xs div 2), Max (set xs))"

definition standardised_example :: "real dataframe" where
  "standardised_example =
     defaults_table (head_table example_redshift gwtc1_example
       [100] [30] [1/2] [1] [20] [1/4] [-1] [1] [0])"

text \<open>A reader that finds the datasets of \<open>gwtc1_example\<close> in every file, and the
  table \<^verbatim>\<open>convert_df_to_gwosc_df\<close> makes of \<open>gwtc1_example\<close>.\<close>

definition example_reader :: "string \<Rightarrow> py_error + (string \<rightharpoonup> real column)" where
  "example_reader file = Inr (map_of (cols gwtc1_example))"


section \<open>Basic facts\<close>

lemma getitem_setitem:
  "getitem (setitem df c v) c' = (if c' = c then Inr v else getitem df c')"
  by (simp add: getitem_def setitem_def update_conv')

lemma nrows_setitem: "nrows (setitem df c v) = nrows df"
  by (simp add: setitem_def)


lemma getitem_Inr_iff: "(\<exists>v. getitem df c = Inr v) \<longleftrightarrow> c \<in> set (columns df)"
proof -
  have "(\<exists>v. getitem df c = Inr v) \<longleftrightarrow> map_of (cols df) c \<noteq> None"
    by (auto simp: getitem_def split: option.splits)
  then show ?thesis
    by (simp add: columns_def map_of_eq_None_iff)
qed


lemma keeps_Inr: "keeps names Inr"
  by (simp add: keeps_def)


section \<open>Facts about the parser\<close>

lemmas head_defs = standardise_head_def component_steps_def assign_def col_def div_expr_def one_plus_def apply_fn_def get_redshift_from_dl_def getitem_setitem head_table_def source_mass_def

lemma head_result:
  assumes "getitem samples ''luminosity_distance_Mpc'' = Inr dl"
    "getitem samples ''m1_detector_frame_Msun'' = Inr m1"
    "getitem samples ''spin1'' = Inr s1"
    "getitem samples ''costilt1'' = Inr c1"
    "getitem samples ''m2_detector_frame_Msun'' = Inr m2"
    "getitem samples ''spin2'' = Inr s2"
    "getitem samples ''costilt2'' = Inr c2"
    "getitem samples ''right_ascension'' = Inr ra"
    "getitem samples ''declination'' = Inr dec"
  shows "run (standardise_head z) samples = Inr (head_table z samples dl m1 s1 c1 m2 s2 c2 ra dec)"
  using assms
  by (simp add: standardise_head_def component_steps_def assign_def col_def div_expr_def
      one_plus_def apply_fn_def get_redshift_from_dl_def getitem_setitem head_table_def source_mass_def)

lemma head_fail_1:
  assumes "getitem samples ''luminosity_distance_Mpc'' = Inl e"
  shows "run (standardise_head z) samples = Inl e"
  using assms by (simp add: head_defs)

lemma head_fail_2:
  assumes "getitem samples ''luminosity_distance_Mpc'' = Inr dl"
    "getitem samples ''m1_detector_frame_Msun'' = Inl e"
  shows "run (standardise_head z) samples = Inl e"
  using assms by (simp add: head_defs)

lemma head_fail_3:
  assumes "getitem samples ''luminosity_distance_Mpc'' = Inr dl"
    "getitem samples ''m1_detector_frame_Msun'' = Inr m1"
    "getitem samples ''spin1'' = Inl e"
  shows "run (standardise_head z) samples = Inl e"
  using assms by (simp add: head_defs)

lemma head_fail_4:
  assumes "getitem samples ''luminosity_distance_Mpc'' = Inr dl"
    "getitem samples ''m1_detector_frame_Msun'' = Inr m1"
    "getitem samples ''spin1'' = Inr s1"
    "getitem samples ''costilt1'' = Inl e"
  shows "run (standardise_head z) samples = Inl e"
  using assms by (simp add: head_defs)

lemma head_fail_5:
  assumes "getitem samples ''luminosity_distance_Mpc'' = Inr dl"
    "getitem samples ''m1_detector_frame_Msun'' = Inr m1"
    "getitem samples ''spin1'' = Inr s1"
    "getitem samples ''costilt1'' = Inr c1"
    "getitem samples ''m2_detector_frame_Msun'' = Inl e"
  shows "run (standardise_head z) samples = Inl e"
  using assms by (simp add: head_defs)

lemma head_fail_6:
  assumes "getitem samples ''luminosity_distance_Mpc'' = Inr dl"
    "getitem samples ''m1_detector_frame_Msun'' = Inr m1"
    "getitem samples ''spin1'' = Inr s1"
    "getitem samples ''costilt1'' = Inr c1"
    "getitem samples ''m2_detector_frame_Msun'' = Inr m2"
    "getitem samples ''spin2'' = Inl e"
  shows "run (standardise_head z) samples = Inl e"
  using assms by (simp add: head_defs)

lemma head_fail_7:
  assumes "getitem samples ''luminosity_distance_Mpc'' = Inr dl"
    "getitem samples ''m1_detector_frame_Msun'' = Inr m1"
    "getitem samples ''spin1'' = Inr s1"
    "getitem samples ''costilt1'' = Inr c1"
    "getitem samples ''m2_detector_frame_Msun'' = Inr m2"
    "getitem samples ''spin2'' = Inr s2"
    "getitem samples ''costilt2'' = Inl e"
  shows "run (standardise_head z) samples = Inl e"
  using assms by (simp add: head_defs)

lemma head_fail_8:
  assumes "getitem samples ''luminosity_distance_Mpc'' = Inr dl"
    "getitem samples ''m1_detector_frame_Msun'' = Inr m1"
    "getitem samples ''spin1'' = Inr s1"
    "getitem samples ''costilt1'' = Inr c1"
    "getitem samples ''m2_detector_frame_Msun'' = Inr m2"
    "getitem samples ''spin2'' = Inr s2"
    "getitem samples ''costilt2'' = Inr c2"
    "getitem samples ''right_ascension'' = Inl e"
  shows "run (standardise_head z) samples = Inl e"
  using assms by (simp add: head_defs)

lemma head_fail_9:
  assumes "getitem samples ''luminosity_distance_Mpc'' = Inr dl"
    "getitem samples ''m1_detector_frame_Msun'' = Inr m1"
    "getitem samples ''spin1'' = Inr s1"
    "getitem samples ''costilt1'' = Inr c1"
    "getitem samples ''m2_detector_frame_Msun'' = Inr m2"
    "getitem samples ''spin2'' = Inr s2"
    "getitem samples ''costilt2'' = Inr c2"
    "getitem samples ''right_ascension'' = Inr ra"
    "getitem samples ''declination'' = Inl e"
  shows "run (standardise_head z) samples = Inl e"
  using assms by (simp add: head_defs)





lemma head_Inr_elim:
  assumes "run (standardise_head z) samples = Inr t"
  shows "\<exists>dl m1 s1 c1 m2 s2 c2 ra dec. 
    getitem samples ''luminosity_distance_Mpc'' = Inr dl \<and>
    getitem samples ''m1_detector_frame_Msun'' = Inr m1 \<and>
    getitem samples ''spin1'' = Inr s1 \<and>
    getitem samples ''costilt1'' = Inr c1 \<and>
    getitem samples ''m2_detector_frame_Msun'' = Inr m2 \<and>
    getitem samples ''spin2'' = Inr s2 \<and>
    getitem samples ''costilt2'' = Inr c2 \<and>
    getitem samples ''right_ascension'' = Inr ra \<and>
    getitem samples ''declination'' = Inr dec \<and>
    t = head_table z samples dl m1 s1 c1 m2 s2 c2 ra dec"
proof -
  obtain dl where 1: "getitem samples ''luminosity_distance_Mpc'' = Inr dl"
    using assms head_fail_1 [of samples _ z]
    by (cases "getitem samples ''luminosity_distance_Mpc''") auto
  obtain m1 where 2: "getitem samples ''m1_detector_frame_Msun'' = Inr m1"
    using assms head_fail_2 [OF 1] by (cases "getitem samples ''m1_detector_frame_Msun''") auto
  obtain s1 where 3: "getitem samples ''spin1'' = Inr s1"
    using assms head_fail_3 [OF 1 2] by (cases "getitem samples ''spin1''") auto
  obtain c1 where 4: "getitem samples ''costilt1'' = Inr c1"
    using assms head_fail_4 [OF 1 2 3] by (cases "getitem samples ''costilt1''") auto
  obtain m2 where 5: "getitem samples ''m2_detector_frame_Msun'' = Inr m2"
    using assms head_fail_5 [OF 1 2 3 4] by (cases "getitem samples ''m2_detector_frame_Msun''") auto
  obtain s2 where 6: "getitem samples ''spin2'' = Inr s2"
    using assms head_fail_6 [OF 1 2 3 4 5] by (cases "getitem samples ''spin2''") auto
  obtain c2 where 7: "getitem samples ''costilt2'' = Inr c2"
    using assms head_fail_7 [OF 1 2 3 4 5 6] by (cases "getitem samples ''costilt2''") auto
  obtain ra where 8: "getitem samples ''right_ascension'' = Inr ra"
    using assms head_fail_8 [OF 1 2 3 4 5 6 7] by (cases "getitem samples ''right_ascension''") auto
  obtain dec where 9: "getitem samples ''declination'' = Inr dec"
    using assms head_fail_9 [OF 1 2 3 4 5 6 7 8] by (cases "getitem samples ''declination''") auto
  have "t = head_table z samples dl m1 s1 c1 m2 s2 c2 ra dec"
    using assms head_result [OF 1 2 3 4 5 6 7 8 9, of z] by simp
  with 1 2 3 4 5 6 7 8 9 show ?thesis by blast
qed

lemma defaults_result: "run orientation_defaults df = Inr (defaults_table df)"
  by (simp add: orientation_defaults_def assign_def const_def defaults_table_def nrows_setitem)

lemma getitem_defaults:
  "c \<notin> {''incl'', ''phi_12'', ''phi_jl'', ''geocent_time''} \<Longrightarrow>
     getitem (defaults_table df) c = getitem df c"
  by (simp add: defaults_table_def getitem_setitem)

lemma standardise_Inr_elim:
  assumes "standardise_samples z add_spins reorder samples = Inr out"
  obtains t t2 where "run (standardise_head z) samples = Inr t" "add_spins t = Inr t2"
    "reorder (defaults_table t2) = Inr out"
  using assms
  by (auto simp: standardise_samples_def sort_parameters_def standardise_body_def defaults_result
      split: sum.splits)


lemma kept:
  assumes "keeps names add_spins" "keeps names reorder" "c \<in> set names"
    "c \<notin> {''incl'', ''phi_12'', ''phi_jl'', ''geocent_time''}"
    "add_spins t = Inr t2" "reorder (defaults_table t2) = Inr out"
  shows "getitem out c = getitem t c"
proof -
  have "getitem out c = getitem (defaults_table t2) c"
    using assms(2,3,6) by (simp add: keeps_def)
  also have "\<dots> = getitem t2 c"
    using assms(4) by (rule getitem_defaults)
  also have "\<dots> = getitem t c"
    using assms(1,3,5) by (simp add: keeps_def)
  finally show ?thesis .
qed

lemma wf_getitem: "wf_df df \<Longrightarrow> getitem df c = Inr v \<Longrightarrow> length v = nrows df"
  by (auto simp: wf_df_def getitem_def list_all_iff split: option.splits dest!: map_of_SomeD)

lemma example_head:
  "run (standardise_head z) gwtc1_example =
     Inr (head_table z gwtc1_example [100] [30] [1/2] [1] [20] [1/4] [-1] [1] [0])"
  by (rule head_result) (simp_all add: gwtc1_example_def getitem_def)

lemma example_standardised:
  "standardise_samples z Inr Inr gwtc1_example =
     Inr (defaults_table (head_table z gwtc1_example [100] [30] [1/2] [1] [20] [1/4] [-1] [1] [0]))"
  by (simp add: standardise_samples_def sort_parameters_def standardise_body_def example_head
      defaults_result)

lemma wf_gwtc1_example: "wf_df gwtc1_example"
  by (simp add: wf_df_def gwtc1_example_def columns_def)



text \<open>The column \<^verbatim>\<open>mass_ratio\<close> of the returned table is the quotient, row by row,
  of the columns \<^verbatim>\<open>mass_2_source\<close> and \<^verbatim>\<open>mass_1_source\<close> in the arithmetic of the
  values.\<close>

lemma mass_ratio_rowwise:
  assumes "keeps [''mass_ratio'', ''mass_1_source'', ''mass_2_source''] add_spins"
    and "keeps [''mass_ratio'', ''mass_1_source'', ''mass_2_source''] reorder"
    and "standardise_samples z add_spins reorder samples = Inr out"
  shows "\<exists>m1 m2. getitem out ''mass_1_source'' = Inr m1 \<and> getitem out ''mass_2_source'' = Inr m2 \<and>
     getitem out ''mass_ratio'' = Inr (map2 (\<lambda>x y. x / y) m2 m1)"
proof -
  from assms(3) obtain t t2 where t: "run (standardise_head z) samples = Inr t"
    and t2: "add_spins t = Inr t2" and out: "reorder (defaults_table t2) = Inr out"
    by (rule standardise_Inr_elim)
  from head_Inr_elim [OF t] obtain dl d1 s1 c1 d2 s2 c2 ra dec where
    tab: "t = head_table z samples dl d1 s1 c1 d2 s2 c2 ra dec"
    by blast
  have k: "getitem out c = getitem t c"
    if "c \<in> set [''mass_ratio'', ''mass_1_source'', ''mass_2_source'']" for c
    using kept [OF assms(1,2) that _ t2 out] that by auto
  have "getitem t ''mass_ratio''
      = Inr (map2 (\<lambda>x y. x / y) (source_mass z d2 dl) (source_mass z d1 dl))"
    "getitem t ''mass_1_source'' = Inr (source_mass z d1 dl)"
    "getitem t ''mass_2_source'' = Inr (source_mass z d2 dl)"
    by (simp_all add: tab head_table_def getitem_setitem)
  then show ?thesis by (simp add: k)
qed

section \<open>Facts about the summariser\<close>

lemma step_unfold:
  assumes "pt \<in> set param_types"
  shows "secondary_step lz pt s =
    (case lookup s (''luminosity_distance'' @ pt) of Inl e \<Rightarrow> Inl e | Inr d \<Rightarrow>
     case lz d of Inl e \<Rightarrow> Inl e | Inr zz \<Rightarrow>
     case lookup s (''mass_1'' @ pt) of Inl e \<Rightarrow> Inl e | Inr m1 \<Rightarrow>
     case lookup s (''mass_2'' @ pt) of Inl e \<Rightarrow> Inl e | Inr m2 \<Rightarrow>
     case lookup s (''chirp_mass'' @ pt) of Inl e \<Rightarrow> Inl e | Inr mc \<Rightarrow>
     case lookup s (''total_mass'' @ pt) of Inl e \<Rightarrow> Inl e | Inr mt \<Rightarrow>
       Inr (step_result pt s zz m1 m2 mc mt))"
  using assms
  by (auto simp: param_types_def secondary_step_def mass_keys_def lookup_def step_result_def
      split: sum.splits option.splits)

lemma step_elim:
  assumes "pt \<in> set param_types" "secondary_step lz pt s = Inr s'"
  shows "\<exists>d zz m1 m2 mc mt.
    s (''luminosity_distance'' @ pt) = Some d \<and> lz d = Inr zz \<and>
    s (''mass_1'' @ pt) = Some m1 \<and>
    s (''mass_2'' @ pt) = Some m2 \<and> s (''chirp_mass'' @ pt) = Some mc \<and>
    s (''total_mass'' @ pt) = Some mt \<and> s' = step_result pt s zz m1 m2 mc mt"
  using assms(2) unfolding step_unfold [OF assms(1)]
  by (auto simp: lookup_def split: sum.splits option.splits)

lemma step_error:
  assumes "pt \<in> set param_types" "secondary_step lz pt s = Inl e"
  shows "(\<exists>k \<in> set (map (\<lambda>k. k @ pt) (''luminosity_distance'' # mass_keys)).
            e = KeyError k \<and> s k = None) \<or>
         (\<exists>d. s (''luminosity_distance'' @ pt) = Some d \<and> lz d = Inl e)"
  using assms(2) unfolding step_unfold [OF assms(1)]
  by (auto simp: lookup_def mass_keys_def split: sum.splits option.splits)

lemma derive_unfold:
  "derive_secondary lz param_types s =
     (case secondary_step lz ''_lower'' s of Inl e \<Rightarrow> Inl e
      | Inr s1 \<Rightarrow> (case secondary_step lz ''_upper'' s1 of Inl e \<Rightarrow> Inl e
                   | Inr s2 \<Rightarrow> secondary_step lz [] s2))"
  by (simp add: param_types_def split: sum.splits)

lemma step_result_other:
  "pt \<in> set param_types \<Longrightarrow> k \<in> set required_keys \<Longrightarrow> step_result pt s zz m1 m2 mc mt k = s k"
  by (auto simp: step_result_def required_keys_def param_types_def mass_keys_def)

lemma step_keys_required:
  "pt \<in> set param_types \<Longrightarrow>
     set (map (\<lambda>k. k @ pt) (''luminosity_distance'' # mass_keys)) \<subseteq> set required_keys"
  by (auto simp: required_keys_def)

lemma step_error_on:
  assumes "pt \<in> set param_types" and "secondary_step lz pt si = Inl e"
    and "\<forall>k \<in> set required_keys. si k = s k"
  shows "(\<exists>k \<in> set required_keys. e = KeyError k \<and> s k = None) \<or>
         (\<exists>pt \<in> set param_types. \<exists>d. s (''luminosity_distance'' @ pt) = Some d \<and> lz d = Inl e)"
proof -
  have ld: "''luminosity_distance'' @ pt \<in> set required_keys"
    using step_keys_required [OF assms(1)] by auto
  from step_error [OF assms(1,2)] show ?thesis
  proof
    assume "\<exists>k \<in> set (map (\<lambda>k. k @ pt) (''luminosity_distance'' # mass_keys)).
            e = KeyError k \<and> si k = None"
    then obtain k where "k \<in> set (map (\<lambda>k. k @ pt) (''luminosity_distance'' # mass_keys))"
      "e = KeyError k" "si k = None" by blast
    with step_keys_required [OF assms(1)] assms(3) have "k \<in> set required_keys" "s k = None"
      by auto
    with \<open>e = KeyError k\<close> show ?thesis by blast
  next
    assume "\<exists>d. si (''luminosity_distance'' @ pt) = Some d \<and> lz d = Inl e"
    then obtain d where "si (''luminosity_distance'' @ pt) = Some d" "lz d = Inl e" by blast
    with ld assms(3) have "s (''luminosity_distance'' @ pt) = Some d" by auto
    with \<open>lz d = Inl e\<close> assms(1) show ?thesis by blast
  qed
qed

lemma derive_elim:
  assumes "derive_secondary lz param_types s = Inr s'"
  obtains d1 z1 a1 b1 c1 t1 d2 z2 a2 b2 c2 t2 d3 z3 a3 b3 c3 t3 where
    "s ''luminosity_distance_lower'' = Some d1" "lz d1 = Inr z1" "s ''mass_1_lower'' = Some a1"
    "s ''mass_2_lower'' = Some b1" "s ''chirp_mass_lower'' = Some c1"
    "s ''total_mass_lower'' = Some t1"
    "s ''luminosity_distance_upper'' = Some d2" "lz d2 = Inr z2" "s ''mass_1_upper'' = Some a2"
    "s ''mass_2_upper'' = Some b2" "s ''chirp_mass_upper'' = Some c2"
    "s ''total_mass_upper'' = Some t2"
    "s ''luminosity_distance'' = Some d3" "lz d3 = Inr z3" "s ''mass_1'' = Some a3"
    "s ''mass_2'' = Some b3" "s ''chirp_mass'' = Some c3"
    "s ''total_mass'' = Some t3"
    "s' = step_result [] (step_result ''_upper'' (step_result ''_lower'' s z1 a1 b1 c1 t1)
            z2 a2 b2 c2 t2) z3 a3 b3 c3 t3"
proof -
  from assms obtain s1 s2 where 1: "secondary_step lz ''_lower'' s = Inr s1"
    and 2: "secondary_step lz ''_upper'' s1 = Inr s2" and 3: "secondary_step lz [] s2 = Inr s'"
    by (auto simp: derive_unfold split: sum.splits)
  have pts: "''_lower'' \<in> set param_types" "''_upper'' \<in> set param_types" "[] \<in> set param_types"
    by (simp_all add: param_types_def)
  from step_elim [OF pts(1) 1] obtain d1 z1 a1 b1 c1 t1 where
    l: "s ''luminosity_distance_lower'' = Some d1" "lz d1 = Inr z1" "s ''mass_1_lower'' = Some a1"
    "s ''mass_2_lower'' = Some b1" "s ''chirp_mass_lower'' = Some c1"
    "s ''total_mass_lower'' = Some t1" and s1: "s1 = step_result ''_lower'' s z1 a1 b1 c1 t1"
    by auto
  from step_elim [OF pts(2) 2] obtain d2 z2 a2 b2 c2 t2 where
    u1: "s1 ''luminosity_distance_upper'' = Some d2" "lz d2 = Inr z2" "s1 ''mass_1_upper'' = Some a2"
    "s1 ''mass_2_upper'' = Some b2" "s1 ''chirp_mass_upper'' = Some c2"
    "s1 ''total_mass_upper'' = Some t2" and s2: "s2 = step_result ''_upper'' s1 z2 a2 b2 c2 t2"
    by auto
  from step_elim [OF pts(3) 3] obtain d3 z3 a3 b3 c3 t3 where
    m2: "s2 ''luminosity_distance'' = Some d3" "lz d3 = Inr z3" "s2 ''mass_1'' = Some a3"
    "s2 ''mass_2'' = Some b3" "s2 ''chirp_mass'' = Some c3"
    "s2 ''total_mass'' = Some t3" and s': "s' = step_result [] s2 z3 a3 b3 c3 t3"
    by auto
  have u: "s ''luminosity_distance_upper'' = Some d2" "lz d2 = Inr z2" "s ''mass_1_upper'' = Some a2"
    "s ''mass_2_upper'' = Some b2" "s ''chirp_mass_upper'' = Some c2"
    "s ''total_mass_upper'' = Some t2"
    using u1 by (simp_all add: s1 step_result_def)
  have m: "s ''luminosity_distance'' = Some d3" "lz d3 = Inr z3" "s ''mass_1'' = Some a3"
    "s ''mass_2'' = Some b3" "s ''chirp_mass'' = Some c3"
    "s ''total_mass'' = Some t3"
    using m2 by (simp_all add: s2 s1 step_result_def)
  show ?thesis
    using that [OF l u m] s' s2 s1 by simp
qed

lemma derive_error:
  assumes "derive_secondary lz param_types s = Inl e"
  shows "(\<exists>k \<in> set required_keys. e = KeyError k \<and> s k = None) \<or>
         (\<exists>pt \<in> set param_types. \<exists>d. s (''luminosity_distance'' @ pt) = Some d \<and> lz d = Inl e)"
proof -
  have pts: "''_lower'' \<in> set param_types" "''_upper'' \<in> set param_types" "[] \<in> set param_types"
    by (simp_all add: param_types_def)
  show ?thesis
  proof (cases "secondary_step lz ''_lower'' s")
    case (Inl e1)
    with assms have "secondary_step lz ''_lower'' s = Inl e" by (simp add: derive_unfold)
    from step_error_on [OF pts(1) this, of s] show ?thesis by simp
  next
    case l: (Inr s1)
    from step_elim [OF pts(1) l] obtain z1 a1 b1 c1 t1 where
      s1: "s1 = step_result ''_lower'' s z1 a1 b1 c1 t1" by auto
    have agree1: "\<forall>k \<in> set required_keys. s1 k = s k"
      by (simp add: s1 step_result_other [OF pts(1)])
    show ?thesis
    proof (cases "secondary_step lz ''_upper'' s1")
      case (Inl e1)
      with assms l have "secondary_step lz ''_upper'' s1 = Inl e" by (simp add: derive_unfold)
      from step_error_on [OF pts(2) this agree1] show ?thesis .
    next
      case u: (Inr s2)
      from step_elim [OF pts(2) u] obtain z2 a2 b2 c2 t2 where
        s2: "s2 = step_result ''_upper'' s1 z2 a2 b2 c2 t2" by auto
      have agree2: "\<forall>k \<in> set required_keys. s2 k = s k"
        using agree1 by (simp add: s2 step_result_other [OF pts(2)])
      from assms l u have "secondary_step lz [] s2 = Inl e" by (simp add: derive_unfold)
      from step_error_on [OF pts(3) this agree2] show ?thesis .
    qed
  qed
qed

lemma derive_keeps_required:
  assumes "derive_secondary lz param_types s = Inr s'" and "k \<in> set required_keys"
  shows "s' k = s k"
proof -
  have pts: "''_lower'' \<in> set param_types" "''_upper'' \<in> set param_types" "[] \<in> set param_types"
    by (simp_all add: param_types_def)
  from assms(1) obtain z1 a1 b1 c1 t1 z2 a2 b2 c2 t2 z3 a3 b3 c3 t3 where
    "s' = step_result [] (step_result ''_upper'' (step_result ''_lower'' s z1 a1 b1 c1 t1)
            z2 a2 b2 c2 t2) z3 a3 b3 c3 t3"
    by (rule derive_elim)
  then show ?thesis
    using assms(2) by (simp add: step_result_other pts)
qed

lemma derive_values:
  assumes "derive_secondary lz param_types s = Inr s'" and "pt \<in> set param_types"
  shows "\<exists>d zz. s (''luminosity_distance'' @ pt) = Some d \<and> lz d = Inr zz \<and>
           s' (''redshift'' @ pt) = Some zz \<and>
           (\<forall>key \<in> set mass_keys. \<exists>m. s (key @ pt) = Some m \<and>
              s' (key @ ''_source'' @ pt) = Some (m / (1 + zz)))"
proof -
  from assms(1) obtain d1 z1 a1 b1 c1 t1 d2 z2 a2 b2 c2 t2 d3 z3 a3 b3 c3 t3 where
    l: "s ''luminosity_distance_lower'' = Some d1" "lz d1 = Inr z1" "s ''mass_1_lower'' = Some a1"
    "s ''mass_2_lower'' = Some b1" "s ''chirp_mass_lower'' = Some c1"
    "s ''total_mass_lower'' = Some t1"
    and u: "s ''luminosity_distance_upper'' = Some d2" "lz d2 = Inr z2" "s ''mass_1_upper'' = Some a2"
    "s ''mass_2_upper'' = Some b2" "s ''chirp_mass_upper'' = Some c2"
    "s ''total_mass_upper'' = Some t2"
    and m: "s ''luminosity_distance'' = Some d3" "lz d3 = Inr z3" "s ''mass_1'' = Some a3"
    "s ''mass_2'' = Some b3" "s ''chirp_mass'' = Some c3"
    "s ''total_mass'' = Some t3"
    and s': "s' = step_result [] (step_result ''_upper'' (step_result ''_lower'' s z1 a1 b1 c1 t1)
            z2 a2 b2 c2 t2) z3 a3 b3 c3 t3"
    by (rule derive_elim)
  from assms(2) consider "pt = ''_lower''" | "pt = ''_upper''" | "pt = []"
    by (auto simp: param_types_def)
  then show ?thesis
  proof cases
    case 1
    then show ?thesis using l by (simp add: s' step_result_def mass_keys_def)
  next
    case 2
    then show ?thesis using u by (simp add: s' step_result_def mass_keys_def)
  next
    case 3
    then show ?thesis using m by (simp add: s' step_result_def mass_keys_def)
  qed
qed

lemma derive_returns:
  assumes "set required_keys \<subseteq> dom s" and "\<forall>d. \<exists>zz. lz d = Inr zz"
  shows "\<exists>s'. derive_secondary lz param_types s = Inr s'"
proof (cases "derive_secondary lz param_types s")
  case (Inl e)
  from derive_error [OF Inl] show ?thesis
  proof
    assume "\<exists>k \<in> set required_keys. e = KeyError k \<and> s k = None"
    with assms(1) show ?thesis by (auto simp: domIff subset_iff)
  next
    assume "\<exists>pt \<in> set param_types. \<exists>d. s (''luminosity_distance'' @ pt) = Some d \<and> lz d = Inl e"
    then obtain d where "lz d = Inl e" by blast
    with assms(2) show ?thesis by (metis sum.distinct(1))
  qed
next
  case (Inr s')
  then show ?thesis by blast
qed

lemma summarise_columns_other:
  "summarise_columns sm df ps s = Inr s' \<Longrightarrow> \<forall>p \<in> set ps. k \<notin> set (written_keys p) \<Longrightarrow> s' k = s k"
proof (induction ps arbitrary: s)
  case Nil
  then show ?case by simp
next
  case (Cons p ps)
  then show ?case
    by (auto simp: written_keys_def split: sum.splits prod.splits)
qed

lemma summarise_columns_total:
  "set ps \<subseteq> set (columns df) \<Longrightarrow> \<exists>s'. summarise_columns sm df ps s = Inr s'"
proof (induction ps arbitrary: s)
  case Nil
  then show ?case by simp
next
  case (Cons p ps)
  from Cons.prems obtain xs where "getitem df p = Inr xs"
    using getitem_Inr_iff [of df p] by auto
  with Cons show ?case
    by (auto split: prod.splits)
qed

lemma primary_summary_total: "\<exists>s. primary_summary sm df = Inr s"
  by (simp add: primary_summary_def summarise_columns_total)

lemma summarise_columns_dom:
  "summarise_columns sm df ps s = Inr s' \<Longrightarrow> dom s' = dom s \<union> (\<Union>p \<in> set ps. set (written_keys p))"
proof (induction ps arbitrary: s)
  case Nil
  then show ?case by simp
next
  case (Cons p ps)
  then show ?case
    by (auto simp: written_keys_def split: sum.splits prod.splits)
qed

lemma summarise_columns_stored:
  assumes "summarise_columns sm df ps s = Inr s'" and "p \<in> set ps"
    and "getitem df p = Inr xs" and "sm xs = (t1, t2, t3)"
    and "\<forall>q \<in> set ps. q \<noteq> p \<longrightarrow> set (written_keys q) \<inter> set (written_keys p) = {}"
  shows "s' (p @ ''_lower'') = Some t1 \<and> s' (p @ ''_upper'') = Some t2 \<and> s' p = Some t3"
  using assms(1,2,5)
proof (induction ps arbitrary: s)
  case Nil
  then show ?case by simp
next
  case (Cons q ps)
  show ?case
  proof (cases "p \<in> set ps")
    case True
    obtain s1 where "summarise_columns sm df ps s1 = Inr s'"
      using Cons.prems(1) by (auto split: sum.splits prod.splits)
    then show ?thesis
      using Cons.IH [of s1] True Cons.prems(3) by simp
  next
    case False
    with Cons.prems(2) have q: "q = p" by simp
    define s1 where "s1 = s(p @ ''_lower'' \<mapsto> t1, p @ ''_upper'' \<mapsto> t2, p \<mapsto> t3)"
    have run: "summarise_columns sm df ps s1 = Inr s'"
      using Cons.prems(1) assms(3,4) by (simp add: q s1_def)
    have "\<forall>q \<in> set ps. k \<notin> set (written_keys q)" if "k \<in> set (written_keys p)" for k
      using Cons.prems(3) False that by fastforce
    then have "s' k = s1 k" if "k \<in> set (written_keys p)" for k
      using summarise_columns_other [OF run] that by blast
    then have "s' (p @ ''_lower'') = s1 (p @ ''_lower'')" "s' (p @ ''_upper'') = s1 (p @ ''_upper'')"
      "s' p = s1 p"
      by (simp_all add: written_keys_def)
    then show ?thesis by (simp add: s1_def)
  qed
qed



lemma required_keys_simp:
  "set required_keys = {''luminosity_distance_lower'', ''mass_1_lower'', ''mass_2_lower'',
     ''chirp_mass_lower'', ''total_mass_lower'', ''luminosity_distance_upper'', ''mass_1_upper'',
     ''mass_2_upper'', ''chirp_mass_upper'', ''total_mass_upper'', ''luminosity_distance'',
     ''mass_1'', ''mass_2'', ''chirp_mass'', ''total_mass''}"
  by (auto simp: required_keys_def param_types_def mass_keys_def)

lemma derive_needs:
  assumes "derive_secondary lz param_types s = Inr s'"
  shows "set required_keys \<subseteq> dom s"
proof -
  from assms obtain d1 a1 b1 c1 t1 d2 a2 b2 c2 t2 d3 a3 b3 c3 t3 where
    "s ''luminosity_distance_lower'' = Some d1" "s ''mass_1_lower'' = Some a1"
    "s ''mass_2_lower'' = Some b1" "s ''chirp_mass_lower'' = Some c1"
    "s ''total_mass_lower'' = Some t1"
    "s ''luminosity_distance_upper'' = Some d2" "s ''mass_1_upper'' = Some a2"
    "s ''mass_2_upper'' = Some b2" "s ''chirp_mass_upper'' = Some c2"
    "s ''total_mass_upper'' = Some t2"
    "s ''luminosity_distance'' = Some d3" "s ''mass_1'' = Some a3"
    "s ''mass_2'' = Some b3" "s ''chirp_mass'' = Some c3"
    "s ''total_mass'' = Some t3"
    by (rule derive_elim)
  then show ?thesis
    unfolding required_keys_simp by (simp add: domIff)
qed

lemma summarise_event_df_cases:
  obtains (fails) s e where "primary_summary sm df = Inr s"
      "summarise_event_df sm lz K df = Inl e"
      "(\<exists>k \<in> set required_keys. e = KeyError k \<and> s k = None) \<or>
       (\<exists>pt \<in> set param_types. \<exists>d. s (''luminosity_distance'' @ pt) = Some d \<and> lz d = Inl e)"
  | (returns) s s' where "primary_summary sm df = Inr s" "derive_secondary lz param_types s = Inr s'"
      "set required_keys \<subseteq> dom s"
      "summarise_event_df sm lz K df = Inr ((filter_published K s')(''version'' \<mapsto> PyInt 1))"
proof -
  obtain s where s: "primary_summary sm df = Inr s"
    using primary_summary_total by blast
  show ?thesis
  proof (cases "derive_secondary lz param_types s")
    case (Inl e)
    with s have f: "summarise_event_df sm lz K df = Inl e"
      by (simp add: summarise_event_df_def computed_summary_def)
    from s f derive_error [OF Inl] show ?thesis
      by (rule fails)
  next
    case (Inr s')
    with s derive_needs [OF Inr] show ?thesis
      by (intro returns [of s s']) (simp_all add: summarise_event_df_def computed_summary_def)
  qed
qed




lemma summarise_event_df_returns:
  assumes "set [''luminosity_distance'', ''mass_1'', ''mass_2'', ''chirp_mass'', ''total_mass'']
             \<subseteq> set (columns df)"
    and "\<forall>d. \<exists>zz. lz d = Inr zz"
  shows "\<exists>r. summarise_event_df sm lz K df = Inr r"
proof -
  obtain s where s: "primary_summary sm df = Inr s"
    using primary_summary_total by blast
  have "dom s = (\<Union>p \<in> set (columns df). set (written_keys p))"
    using summarise_columns_dom [OF s [unfolded primary_summary_def]] by simp
  with assms(1) have "set required_keys \<subseteq> dom s"
    unfolding required_keys_simp by (auto simp: written_keys_def)
  from derive_returns [OF this assms(2)] s show ?thesis
    by (auto simp: summarise_event_df_def computed_summary_def)
qed

lemma computed_summary_returns:
  assumes "set [''luminosity_distance'', ''mass_1'', ''mass_2'', ''chirp_mass'', ''total_mass'']
             \<subseteq> set (columns df)"
    and "\<forall>d. \<exists>zz. lz d = Inr zz"
  shows "\<exists>s'. computed_summary sm lz df = Inr s'"
  using summarise_event_df_returns [OF assms, of sm "[]"]
  by (auto simp: summarise_event_df_def split: sum.splits)

lemma example_lz_total: "\<forall>d. \<exists>zz. example_lz d = Inr zz"
  unfolding example_lz_def by blast

lemma summary_example_columns:
  "set [''luminosity_distance'', ''mass_1'', ''mass_2'', ''chirp_mass'', ''total_mass'']
     \<subseteq> set (columns summary_example)"
  by (simp add: summary_example_def columns_def)

lemma dom_filter_published: "dom (filter_published K s) = set K"
  by (auto simp: filter_published_def dom_map_of_conv_image_fst image_iff)

lemma filter_published_value:
  "k \<in> set K \<Longrightarrow> filter_published K s k = Some (case s k of None \<Rightarrow> PyNone | Some v \<Rightarrow> PyFloat v)"
  by (induction K) (auto simp: filter_published_def)

lemma loop_other:
  "summarise_events_loop sm lz K evs acc = Inr res \<Longrightarrow> n \<notin> fst ` set evs \<Longrightarrow>
     map_of res n = map_of acc n"
proof (induction evs arbitrary: acc)
  case Nil
  then show ?case by simp
next
  case (Cons ev evs)
  then show ?case
    by (cases ev) (auto simp: update_conv' split: sum.splits)
qed

lemma loop_keys:
  "summarise_events_loop sm lz K evs acc = Inr res \<Longrightarrow>
     fst ` set res = fst ` set acc \<union> fst ` set evs"
proof (induction evs arbitrary: acc)
  case Nil
  then show ?case by simp
next
  case (Cons ev evs)
  then show ?case
    by (cases ev) (auto simp: dom_update split: sum.splits)
qed

lemma loop_entry:
  "summarise_events_loop sm lz K evs acc = Inr res \<Longrightarrow> distinct (map fst evs) \<Longrightarrow>
     (n, df) \<in> set evs \<Longrightarrow>
     \<exists>r. summarise_event_df sm lz K df = Inr r \<and> map_of res n = Some (r(''commonName'' \<mapsto> PyStr n))"
proof (induction evs arbitrary: acc)
  case Nil
  then show ?case by simp
next
  case (Cons ev evs)
  obtain n' df' where ev: "ev = (n', df')" by (cases ev)
  from Cons.prems(1) obtain r' where r': "summarise_event_df sm lz K df' = Inr r'"
    and rest: "summarise_events_loop sm lz K evs
       (AList.update n' (r'(''commonName'' \<mapsto> PyStr n')) acc) = Inr res"
    by (auto simp: ev split: sum.splits)
  show ?case
  proof (cases "(n, df) \<in> set evs")
    case True
    with Cons.IH [OF rest] Cons.prems(2) show ?thesis by simp
  next
    case False
    with Cons.prems(3) have eq: "n' = n" "df' = df" by (auto simp: ev)
    with Cons.prems(2) have "n \<notin> fst ` set evs" by (simp add: ev)
    from loop_other [OF rest this] have "map_of res n = Some (r'(''commonName'' \<mapsto> PyStr n))"
      by (simp add: eq update_conv')
    with r' eq show ?thesis by blast
  qed
qed

section \<open>Facts about loading\<close>

lemma split_py_first:
  "sep \<noteq> [] \<Longrightarrow> \<exists>rest. split_py sep cur s = (cur @ truncate_at sep s) # rest"
proof (induction s arbitrary: cur)
  case Nil
  then show ?case by simp
next
  case (Cons c cs)
  show ?case
  proof (cases "startswith (c # cs) sep")
    case True
    with Cons.prems show ?thesis by simp
  next
    case False
    with Cons.IH [OF Cons.prems, of "cur @ [c]"] show ?thesis by simp
  qed
qed

lemma first_piece_truncate: "sep \<noteq> [] \<Longrightarrow> first_piece s sep = Inr (truncate_at sep s)"
  using split_py_first [of sep "[]" s]
  by (auto simp: first_piece_def str_split_def index0_def)

lemma truncate_at_char: "truncate_at [x] s = takeWhile (\<lambda>c. c \<noteq> x) s"
  by (induction s) (auto simp: startswith_def)

lemma event_name_spec: "event_name_of_file file = Inr (spec_event_name file)"
  by (simp add: event_name_of_file_def first_piece_truncate spec_event_name_def truncate_at_char)

lemma load_loop_keys:
  "load_loop rd files acc = Inr events \<Longrightarrow>
     fst ` set events = fst ` set acc \<union> spec_event_name ` set files"
proof (induction files arbitrary: acc)
  case Nil
  then show ?case by simp
next
  case (Cons f fs)
  from Cons.prems obtain df where
    "load_loop rd fs (AList.update (spec_event_name f) df acc) = Inr events"
    by (auto simp: event_name_spec split: sum.splits)
  from Cons.IH [OF this] show ?case
    by (auto simp: dom_update)
qed

lemma example_name: "spec_event_name ''data/GW150914_GWTC-1.hdf5'' = ''GW150914''"
  by (simp add: spec_event_name_def basename_def startswith_def)

lemma example_frame: "read_columns (map_of (cols gwtc1_example)) SEARCH_PARAMS = Inr (cols gwtc1_example)"
  by (simp add: SEARCH_PARAMS_def gwtc1_example_def)

section \<open>Facts about tables as objects\<close>

lemma run_in_place_Inr:
  "r < length h \<Longrightarrow> run sts (h ! r) = Inr df \<Longrightarrow> run_in_place sts h r = (h[r := df], None)"
proof (induction sts arbitrary: h)
  case Nil
  then show ?case by auto
next
  case (Cons st sts)
  from Cons.prems(2) obtain df1 where 1: "st (h ! r) = Inr df1" and 2: "run sts df1 = Inr df"
    by (auto split: sum.splits)
  from Cons.IH [of "h[r := df1]"] Cons.prems(1) 2
  have "run_in_place sts (h[r := df1]) r = (h[r := df1, r := df], None)" by simp
  with 1 show ?case by simp
qed





text \<open>When the helper called after the first statements returns a new table, the
  argument still holds the columns assigned before the call, and the reference
  returned is not the argument's.\<close>

lemma standardise_copying_helper:
  assumes "samples < length h"
    and "run (standardise_head z) (h ! samples) = Inr t"
    and "standardise_samples_ref z NewObject add_spins sort_mode reorder h samples = (h', res)"
  shows "h' ! samples = t \<and> (\<forall>out. res = Inr out \<longrightarrow> out \<noteq> samples)"
proof -
  have 1: "run_in_place (standardise_head z) h samples = (h[samples := t], None)"
    using assms(1,2) by (rule run_in_place_Inr)
  show ?thesis
  proof (cases "add_spins t")
    case (Inl e)
    with assms(1,3) 1 show ?thesis
      by (auto simp: standardise_samples_ref_def call_helper_def)
  next
    case (Inr t2)
    have 2: "call_helper NewObject add_spins (h[samples := t]) samples
        = (h[samples := t] @ [t2], Inr (length h))"
      using assms(1) Inr by (simp add: call_helper_def)
    have l: "length h < length (h[samples := t] @ [t2])" by simp
    have 3: "run_in_place orientation_defaults (h[samples := t] @ [t2]) (length h)
        = (h[samples := t] @ [defaults_table t2], None)"
      using run_in_place_Inr [OF l, of orientation_defaults "defaults_table t2"]
      by (simp add: defaults_result nth_append list_update_append)
    from assms(3) 1 2 3
    have 4: "call_helper sort_mode reorder (h[samples := t] @ [defaults_table t2]) (length h) = (h', res)"
      by (simp add: standardise_samples_ref_def)
    show ?thesis
    proof (cases "reorder (defaults_table t2)")
      case (Inl e)
      with 4 assms(1) show ?thesis
        by (auto simp: call_helper_def nth_append)
    next
      case (Inr df)
      with 4 assms(1) show ?thesis
        by (cases sort_mode) (auto simp: call_helper_def nth_append)
    qed
  qed
qed

section \<open>Claims about the parser\<close>

text \<open>
  Claim C1 (schema completeness) asks that the table \<^verbatim>\<open>standardise_samples\<close> returns
  for a raw table with the parser's source columns has every name of the canonical
  parameter set as a column, \<^verbatim>\<open>mass_1\<close> and \<^verbatim>\<open>mass_2\<close> among them. No statement of
  the function assigns these two columns. On the raw table \<open>gwtc1_example\<close>, with
  collaborators that return the table they receive, the columns of the result are the
  ten source columns followed by seventeen assigned ones, without \<^verbatim>\<open>mass_1\<close> and
  \<^verbatim>\<open>mass_2\<close>.
\<close>

theorem standardise_samples_omits_detector_masses: "map_sum id columns (standardise_samples z Inr Inr gwtc1_example) =
  Inr (SEARCH_PARAMS @
    [''luminosity_distance'', ''redshift'', ''mass_1_source'', ''a_1'', ''cos_tilt_1'', ''spin_1z'',
     ''mass_2_source'', ''a_2'', ''cos_tilt_2'', ''spin_2z'', ''mass_ratio'', ''ra'', ''dec'',
     ''incl'', ''phi_12'', ''phi_jl'', ''geocent_time''])"
proof -
  have "standardise_samples z Inr Inr gwtc1_example =
      Inr (defaults_table (head_table z gwtc1_example [100] [30] [1/2] [1] [20] [1/4] [-1] [1] [0]))"
    by (simp add: standardise_samples_def sort_parameters_def standardise_body_def example_head
        defaults_result)
  then show ?thesis
    by (simp add: defaults_table_def head_table_def SEARCH_PARAMS_def setitem_def columns_def
        gwtc1_example_def)
qed

text \<open>
  Claim C5: \<^verbatim>\<open>standardise_samples\<close> copies \<^verbatim>\<open>spin1\<close>, \<^verbatim>\<open>spin2\<close> to \<^verbatim>\<open>a_1\<close>, \<^verbatim>\<open>a_2\<close>,
  copies \<^verbatim>\<open>costilt1\<close>, \<^verbatim>\<open>costilt2\<close> to \<^verbatim>\<open>cos_tilt_1\<close>, \<^verbatim>\<open>cos_tilt_2\<close>, and fills
  \<^verbatim>\<open>spin_1z\<close>, \<^verbatim>\<open>spin_2z\<close> with the cosine-tilt columns themselves, not with the
  product of magnitude and cosine. The collaborators outside the module verified here are
  taken to keep these six columns as they receive them.
\<close>

theorem standardise_samples_spin_columns:
  assumes "keeps [''a_1'', ''a_2'', ''cos_tilt_1'', ''cos_tilt_2'', ''spin_1z'', ''spin_2z''] add_spins"
    and "keeps [''a_1'', ''a_2'', ''cos_tilt_1'', ''cos_tilt_2'', ''spin_1z'', ''spin_2z''] reorder"
    and "standardise_samples z add_spins reorder samples = Inr out"
  shows "\<exists>s1 s2 c1 c2.
     getitem samples ''spin1'' = Inr s1 \<and> getitem samples ''spin2'' = Inr s2 \<and>
     getitem samples ''costilt1'' = Inr c1 \<and> getitem samples ''costilt2'' = Inr c2 \<and>
     getitem out ''a_1'' = Inr s1 \<and> getitem out ''a_2'' = Inr s2 \<and>
     getitem out ''cos_tilt_1'' = Inr c1 \<and> getitem out ''cos_tilt_2'' = Inr c2 \<and>
     getitem out ''spin_1z'' = Inr c1 \<and> getitem out ''spin_2z'' = Inr c2"
proof -
  from assms(3) obtain t t2 where t: "run (standardise_head z) samples = Inr t"
    and t2: "add_spins t = Inr t2" and out: "reorder (defaults_table t2) = Inr out"
    by (rule standardise_Inr_elim)
  from head_Inr_elim [OF t] obtain dl m1 s1 c1 m2 s2 c2 ra dec where
    src: "getitem samples ''spin1'' = Inr s1" "getitem samples ''spin2'' = Inr s2"
      "getitem samples ''costilt1'' = Inr c1" "getitem samples ''costilt2'' = Inr c2"
    and tab: "t = head_table z samples dl m1 s1 c1 m2 s2 c2 ra dec"
    by blast
  have k: "getitem out c = getitem t c"
    if "c \<in> set [''a_1'', ''a_2'', ''cos_tilt_1'', ''cos_tilt_2'', ''spin_1z'', ''spin_2z'']" for c
    using kept [OF assms(1,2) that _ t2 out] that by auto
  have "getitem t ''a_1'' = Inr s1" "getitem t ''a_2'' = Inr s2"
    "getitem t ''cos_tilt_1'' = Inr c1" "getitem t ''cos_tilt_2'' = Inr c2"
    "getitem t ''spin_1z'' = Inr c1" "getitem t ''spin_2z'' = Inr c2"
    by (simp_all add: tab head_table_def getitem_setitem)
  then have "getitem out ''a_1'' = Inr s1" "getitem out ''a_2'' = Inr s2"
    "getitem out ''cos_tilt_1'' = Inr c1" "getitem out ''cos_tilt_2'' = Inr c2"
    "getitem out ''spin_1z'' = Inr c1" "getitem out ''spin_2z'' = Inr c2"
    by (simp_all add: k)
  with src show ?thesis by blast
qed

theorem standardise_samples_spin_columns_witness:
  "keeps [''a_1'', ''a_2'', ''cos_tilt_1'', ''cos_tilt_2'', ''spin_1z'', ''spin_2z''] Inr \<and>
   standardise_samples example_redshift Inr Inr gwtc1_example = Inr standardised_example \<and>
   getitem standardised_example ''a_1'' = Inr [1/2] \<and>
   getitem standardised_example ''a_2'' = Inr [1/4] \<and>
   getitem standardised_example ''cos_tilt_1'' = Inr [1] \<and>
   getitem standardised_example ''cos_tilt_2'' = Inr [-1] \<and>
   getitem standardised_example ''spin_1z'' = Inr [1] \<and>
   getitem standardised_example ''spin_2z'' = Inr [-1]"
proof -
  have e: "standardise_samples example_redshift Inr Inr gwtc1_example = Inr standardised_example"
    by (simp add: example_standardised standardised_example_def)
  have src: "getitem gwtc1_example ''spin1'' = Inr [1/2]" "getitem gwtc1_example ''spin2'' = Inr [1/4]"
    "getitem gwtc1_example ''costilt1'' = Inr [1]" "getitem gwtc1_example ''costilt2'' = Inr [-1]"
    by (simp_all add: gwtc1_example_def getitem_def)
  from standardise_samples_spin_columns [OF keeps_Inr keeps_Inr e] src keeps_Inr e show ?thesis
    by auto
qed



section \<open>Claims about the summariser\<close>

text \<open>
  Claim C2: with a summariser that returns (lower, median, upper),
  \<^verbatim>\<open>summarise_event_df\<close> is to store the lower value under the column's name with
  suffix \<^verbatim>\<open>_lower\<close>, the median under the plain name and the upper value under the
  name with suffix \<^verbatim>\<open>_upper\<close>. The tuple assignment of the source hands the second
  component of the triple to the key with suffix \<^verbatim>\<open>_upper\<close> and the third to the
  plain key. On the table \<open>three_row_example\<close>, whose column \<^verbatim>\<open>mass_1\<close> is summarised
  to (30, 32, 34), the returned record holds 34 under \<^verbatim>\<open>mass_1\<close> and 32 under
  \<^verbatim>\<open>mass_1_upper\<close>.
\<close>

theorem summarise_event_df_swaps_median_and_upper:
  "three_point_summary [30, 32, 34] = (30, 32, 34) \<and>
   map_sum id (published_triple ''mass_1'')
     (summarise_event_df three_point_summary example_lz
        [''mass_1_lower'', ''mass_1'', ''mass_1_upper''] three_row_example)
     = Inr (Some (PyFloat 30), Some (PyFloat 34), Some (PyFloat 32))"
proof -
  have sm: "three_point_summary [30, 32, 34] = (30, 32, 34)"
    by (simp add: three_point_summary_def)
  have cols: "set [''luminosity_distance'', ''mass_1'', ''mass_2'', ''chirp_mass'', ''total_mass'']
      \<subseteq> set (columns three_row_example)"
    by (simp add: three_row_example_def columns_def)
  from summarise_event_df_returns [OF cols example_lz_total]
  obtain r where r: "summarise_event_df three_point_summary example_lz
      [''mass_1_lower'', ''mass_1'', ''mass_1_upper''] three_row_example = Inr r"
    by blast
  then obtain s s' where s: "primary_summary three_point_summary three_row_example = Inr s"
    and d: "derive_secondary example_lz param_types s = Inr s'"
    and r_def: "r = (filter_published [''mass_1_lower'', ''mass_1'', ''mass_1_upper''] s')
        (''version'' \<mapsto> PyInt 1)"
    by (cases rule: summarise_event_df_cases [of three_point_summary three_row_example example_lz
        "[''mass_1_lower'', ''mass_1'', ''mass_1_upper'']"]) auto
  have g: "getitem three_row_example ''mass_1'' = Inr [30, 32, 34]"
    by (simp add: three_row_example_def getitem_def)
  have m: "''mass_1'' \<in> set (columns three_row_example)"
    by (simp add: three_row_example_def columns_def)
  have c: "\<forall>q \<in> set (columns three_row_example). q \<noteq> ''mass_1'' \<longrightarrow>
      set (written_keys q) \<inter> set (written_keys ''mass_1'') = {}"
    by (simp add: three_row_example_def columns_def written_keys_def)
  from summarise_columns_stored [OF s [unfolded primary_summary_def] m g sm c]
  have p: "s ''mass_1_lower'' = Some 30" "s ''mass_1_upper'' = Some 32" "s ''mass_1'' = Some 34"
    by simp_all
  have "s' ''mass_1_lower'' = s ''mass_1_lower''" "s' ''mass_1_upper'' = s ''mass_1_upper''"
    "s' ''mass_1'' = s ''mass_1''"
    by (rule derive_keeps_required [OF d], simp add: required_keys_simp)+
  with p have "published_triple ''mass_1'' r
      = (Some (PyFloat 30), Some (PyFloat 34), Some (PyFloat 32))"
    by (simp add: published_triple_def r_def filter_published_def)
  with sm r show ?thesis by simp
qed

text \<open>
  Claim C3: for each of the suffixes \<^verbatim>\<open>_lower\<close>, \<^verbatim>\<open>_upper\<close> and the empty one, the
  summary before the filter holds, under \<^verbatim>\<open>redshift\<close> with the suffix, the cosmology
  adapter applied to the summarised \<^verbatim>\<open>luminosity_distance\<close> with the suffix, and for
  each of the four mass keys k, under k, \<^verbatim>\<open>_source\<close> and the suffix, the summarised k
  with the suffix divided by one plus that redshift. The values come from the
  summary of the first loop, not from the sample columns.
\<close>

theorem secondary_from_summarised_primary:
  assumes "computed_summary summarise_samples lz event_df = Inr summary'"
    and "param_type \<in> set param_types"
  shows "\<exists>summary d zz.
     primary_summary summarise_samples event_df = Inr summary \<and>
     summary (''luminosity_distance'' @ param_type) = Some d \<and>
     lz d = Inr zz \<and>
     summary' (''redshift'' @ param_type) = Some zz \<and>
     (\<forall>key \<in> set mass_keys. \<exists>m. summary (key @ param_type) = Some m \<and>
        summary' (key @ ''_source'' @ param_type) = Some (m / (1 + zz)))"
proof -
  from assms(1) obtain summary where s: "primary_summary summarise_samples event_df = Inr summary"
    and d: "derive_secondary lz param_types summary = Inr summary'"
    by (auto simp: computed_summary_def split: sum.splits)
  from derive_values [OF d assms(2)] s show ?thesis by blast
qed

theorem secondary_from_summarised_primary_witness:
  "''_lower'' \<in> set param_types \<and>
   (\<exists>summary'. computed_summary three_point_summary example_lz summary_example = Inr summary' \<and>
     (\<exists>summary d zz.
       primary_summary three_point_summary summary_example = Inr summary \<and>
       summary (''luminosity_distance'' @ ''_lower'') = Some d \<and>
       example_lz d = Inr zz \<and>
       summary' (''redshift'' @ ''_lower'') = Some zz \<and>
       (\<forall>key \<in> set mass_keys. \<exists>m. summary (key @ ''_lower'') = Some m \<and>
          summary' (key @ ''_source'' @ ''_lower'') = Some (m / (1 + zz)))))"
proof -
  have p: "''_lower'' \<in> set param_types" by (simp add: param_types_def)
  obtain s' where s': "computed_summary three_point_summary example_lz summary_example = Inr s'"
    using computed_summary_returns [OF summary_example_columns example_lz_total] by blast
  have c: "\<exists>summary d zz.
       primary_summary three_point_summary summary_example = Inr summary \<and>
       summary (''luminosity_distance'' @ ''_lower'') = Some d \<and>
       example_lz d = Inr zz \<and>
       s' (''redshift'' @ ''_lower'') = Some zz \<and>
       (\<forall>key \<in> set mass_keys. \<exists>m. summary (key @ ''_lower'') = Some m \<and>
          s' (key @ ''_source'' @ ''_lower'') = Some (m / (1 + zz)))"
    by (rule secondary_from_summarised_primary [OF s' p])
  show ?thesis
  proof (rule conjI)
    show "''_lower'' \<in> set param_types" by (rule p)
  next
    from s' c show "\<exists>summary'. computed_summary three_point_summary example_lz summary_example
        = Inr summary' \<and>
     (\<exists>summary d zz.
       primary_summary three_point_summary summary_example = Inr summary \<and>
       summary (''luminosity_distance'' @ ''_lower'') = Some d \<and>
       example_lz d = Inr zz \<and>
       summary' (''redshift'' @ ''_lower'') = Some zz \<and>
       (\<forall>key \<in> set mass_keys. \<exists>m. summary (key @ ''_lower'') = Some m \<and>
          summary' (key @ ''_source'' @ ''_lower'') = Some (m / (1 + zz))))"
      by (rule exI [of _ s', OF conjI])
  qed
qed

text \<open>
  Claim C4 (published-key filtering): the record \<^verbatim>\<open>summarise_all_events\<close> stores for
  an event has as its keys exactly the published keys together with
  \<^verbatim>\<open>commonName\<close> and \<^verbatim>\<open>version\<close>; \<^verbatim>\<open>commonName\<close> is the event name and \<^verbatim>\<open>version\<close>
  is 1; every other published key holds the computed value, or \<^verbatim>\<open>None\<close> when none
  was computed; a computed key outside this set is absent.
\<close>

theorem published_key_filtering:
  assumes "summarise_all_events summarise_samples lz GWOSC_KEYS events_samples_dict = Inr summary_dict"
    and "distinct (map fst events_samples_dict)"
    and "(event_name, event_df) \<in> set events_samples_dict"
  shows "\<exists>summary entry.
     computed_summary summarise_samples lz event_df = Inr summary \<and>
     map_of summary_dict event_name = Some entry \<and>
     dom entry = set GWOSC_KEYS \<union> {''commonName'', ''version''} \<and>
     entry ''commonName'' = Some (PyStr event_name) \<and>
     entry ''version'' = Some (PyInt 1) \<and>
     (\<forall>k \<in> set GWOSC_KEYS - {''commonName'', ''version''}.
        entry k = Some (case summary k of None \<Rightarrow> PyNone | Some v \<Rightarrow> PyFloat v))"
proof -
  from loop_entry [OF assms(1) [unfolded summarise_all_events_def] assms(2,3)]
  obtain r where r: "summarise_event_df summarise_samples lz GWOSC_KEYS event_df = Inr r"
    and rec: "map_of summary_dict event_name = Some (r(''commonName'' \<mapsto> PyStr event_name))"
    by blast
  from r obtain summary where s: "computed_summary summarise_samples lz event_df = Inr summary"
    and r_def: "r = (filter_published GWOSC_KEYS summary)(''version'' \<mapsto> PyInt 1)"
    by (auto simp: summarise_event_df_def split: sum.splits)
  define entry where "entry = r(''commonName'' \<mapsto> PyStr event_name)"
  have "dom entry = set GWOSC_KEYS \<union> {''commonName'', ''version''}"
    by (auto simp: entry_def r_def dom_filter_published)
  moreover have "entry ''commonName'' = Some (PyStr event_name)" "entry ''version'' = Some (PyInt 1)"
    by (simp_all add: entry_def r_def)
  moreover have "\<forall>k \<in> set GWOSC_KEYS - {''commonName'', ''version''}.
        entry k = Some (case summary k of None \<Rightarrow> PyNone | Some v \<Rightarrow> PyFloat v)"
    by (auto simp: entry_def r_def filter_published_value)
  ultimately show ?thesis using s rec unfolding entry_def by blast
qed

theorem published_key_filtering_witness:
  "distinct (map fst [(''GW150914'', summary_example)]) \<and>
   (''GW150914'', summary_example) \<in> set [(''GW150914'', summary_example)] \<and>
   (\<exists>summary_dict.
      summarise_all_events three_point_summary example_lz
        [''commonName'', ''mass_1_source'', ''redshift'', ''chi_eff'']
        [(''GW150914'', summary_example)] = Inr summary_dict \<and>
      (\<exists>summary entry.
         computed_summary three_point_summary example_lz summary_example = Inr summary \<and>
         map_of summary_dict ''GW150914'' = Some entry \<and>
         dom entry = set [''commonName'', ''mass_1_source'', ''redshift'', ''chi_eff'']
            \<union> {''commonName'', ''version''} \<and>
         entry ''commonName'' = Some (PyStr ''GW150914'') \<and>
         entry ''version'' = Some (PyInt 1) \<and>
         (\<forall>k \<in> set [''commonName'', ''mass_1_source'', ''redshift'', ''chi_eff'']
              - {''commonName'', ''version''}.
            entry k = Some (case summary k of None \<Rightarrow> PyNone | Some v \<Rightarrow> PyFloat v))))"
proof -
  have d: "distinct (map fst [(''GW150914'', summary_example)])" by simp
  have m: "(''GW150914'', summary_example) \<in> set [(''GW150914'', summary_example)]" by simp
  obtain r where r: "summarise_event_df three_point_summary example_lz
      [''commonName'', ''mass_1_source'', ''redshift'', ''chi_eff''] summary_example = Inr r"
    using summarise_event_df_returns [OF summary_example_columns example_lz_total] by blast
  define summary_dict where
    "summary_dict = [(''GW150914'', r(''commonName'' \<mapsto> PyStr ''GW150914''))]"
  have s: "summarise_all_events three_point_summary example_lz
        [''commonName'', ''mass_1_source'', ''redshift'', ''chi_eff'']
        [(''GW150914'', summary_example)] = Inr summary_dict"
    unfolding summarise_all_events_def summary_dict_def
    by (simp add: r)
  have c: "\<exists>summary entry.
         computed_summary three_point_summary example_lz summary_example = Inr summary \<and>
         map_of summary_dict ''GW150914'' = Some entry \<and>
         dom entry = set [''commonName'', ''mass_1_source'', ''redshift'', ''chi_eff'']
            \<union> {''commonName'', ''version''} \<and>
         entry ''commonName'' = Some (PyStr ''GW150914'') \<and>
         entry ''version'' = Some (PyInt 1) \<and>
         (\<forall>k \<in> set [''commonName'', ''mass_1_source'', ''redshift'', ''chi_eff'']
              - {''commonName'', ''version''}.
            entry k = Some (case summary k of None \<Rightarrow> PyNone | Some v \<Rightarrow> PyFloat v))"
    by (rule published_key_filtering [OF s d m])
  show ?thesis
    by (intro conjI exI [of _ summary_dict]) (rule d m s c)+
qed




section \<open>Claims about event names and about table objects\<close>

text \<open>
  Claim C8: the name under which an event is stored is a function of the file name
  alone: the base name, truncated at the first occurrence of \<^verbatim>\<open>.h\<close>, and of that the
  segment before the first underscore. The two \<^verbatim>\<open>split\<close> calls of the source compute
  this name for every file, and the dictionary \<^verbatim>\<open>load_event_samples_to_dataframes\<close>
  returns has exactly these names as keys.
\<close>

theorem event_name_from_file_name:
  assumes "load_event_samples_to_dataframes read_posterior files = Inr events_samples_dict"
  shows "fst ` set events_samples_dict = spec_event_name ` set files \<and>
     (\<forall>file. event_name_of_file file = Inr (spec_event_name file))"
  using load_loop_keys [OF assms [unfolded load_event_samples_to_dataframes_def]]
  by (simp add: event_name_spec)

theorem event_name_from_file_name_witness:
  "load_event_samples_to_dataframes example_reader [''data/GW150914_GWTC-1.hdf5'']
     = Inr [(''GW150914'', gwtc1_example)] \<and>
   fst ` set [(''GW150914'', gwtc1_example)] = spec_event_name ` set [''data/GW150914_GWTC-1.hdf5''] \<and>
   event_name_of_file ''data/GW150914_GWTC-1.hdf5'' = Inr ''GW150914''"
proof -
  have df: "DataFrame (cols gwtc1_example) = Inr gwtc1_example"
    by (simp add: DataFrame_def gwtc1_example_def)
  have l: "load_event_samples_to_dataframes example_reader [''data/GW150914_GWTC-1.hdf5'']
     = Inr [(''GW150914'', gwtc1_example)]"
    unfolding load_event_samples_to_dataframes_def
    by (simp add: event_name_spec example_name example_reader_def example_frame df)
  from event_name_from_file_name [OF l] l example_name show ?thesis
    by simp
qed




end
